theory Spec2Isabelle
  imports Main
begin

section \<open>Strings as the Go runtime sees them\<close>

text \<open>
  A Go \<^verbatim>\<open>string\<close> is a sequence of bytes, here a \<^typ>\<open>string\<close> (a list of
  8-bit characters). The library functions the repository calls are written out on
  bytes. The regular expressions of the repository only name ASCII characters, and no ASCII
  byte occurs inside a multi-byte UTF-8 sequence, so matching byte by byte is what Go's
  rune-wise matching does.
\<close>

definition nl :: char where
  "nl = CHR 0x0A"

text \<open>The class \<^verbatim>\<open>\s\<close> of Go's regexp package: tab, newline, form feed, carriage return, space.\<close>

definition reSpace :: "char \<Rightarrow> bool" where
  "reSpace c = (c = CHR 0x09 \<or> c = CHR 0x0A \<or> c = CHR 0x0C \<or> c = CHR 0x0D \<or> c = CHR 0x20)"

definition isDigit :: "char \<Rightarrow> bool" where
  "isDigit c = (48 \<le> (of_char c :: nat) \<and> (of_char c :: nat) \<le> 57)"

definition isUpper :: "char \<Rightarrow> bool" where
  "isUpper c = (65 \<le> (of_char c :: nat) \<and> (of_char c :: nat) \<le> 90)"

definition isLower :: "char \<Rightarrow> bool" where
  "isLower c = (97 \<le> (of_char c :: nat) \<and> (of_char c :: nat) \<le> 122)"

text \<open>The class \<^verbatim>\<open>[a-zA-Z0-9]\<close>.\<close>

definition isAlnum :: "char \<Rightarrow> bool" where
  "isAlnum c = (isLower c \<or> isUpper c \<or> isDigit c)"

text \<open>The class \<^verbatim>\<open>\w\<close>: \<^verbatim>\<open>[0-9A-Za-z_]\<close>.\<close>

definition isWord :: "char \<Rightarrow> bool" where
  "isWord c = (isAlnum c \<or> c = CHR ''_'')"

text \<open>\<^verbatim>\<open>strings.HasPrefix\<close> and \<^verbatim>\<open>strings.Contains\<close>.\<close>

definition HasPrefix :: "string \<Rightarrow> string \<Rightarrow> bool" where
  "HasPrefix s p = (take (length p) s = p)"

primrec Contains :: "string \<Rightarrow> string \<Rightarrow> bool" where
  "Contains [] sub = (sub = [])"
| "Contains (c # s) sub = (HasPrefix (c # s) sub \<or> Contains s sub)"

text \<open>\<^verbatim>\<open>strings.Split(s, "\n")\<close>: the pieces between newlines, one more than there are newlines.\<close>

fun SplitLines :: "string \<Rightarrow> string list" where
  "SplitLines [] = [[]]"
| "SplitLines (c # s) =
     (if c = nl then [] # SplitLines s
      else (case SplitLines s of [] \<Rightarrow> [[c]] | l # ls \<Rightarrow> (c # l) # ls))"

text \<open>
  \<^verbatim>\<open>strings.TrimSpace\<close> removes the leading and the trailing runes that
  \<^verbatim>\<open>unicode.IsSpace\<close> accepts. Their UTF-8 encodings: the six ASCII ones, U+0085, U+00A0,
  U+1680, U+2000 to U+200A, U+2028, U+2029, U+202F, U+205F and U+3000.
\<close>

definition spaceRunes :: "string list" where
  "spaceRunes =
     [[CHR 0x09], [CHR 0x0A], [CHR 0x0B], [CHR 0x0C], [CHR 0x0D], [CHR 0x20],
      [CHR 0xC2, CHR 0x85], [CHR 0xC2, CHR 0xA0],
      [CHR 0xE1, CHR 0x9A, CHR 0x80],
      [CHR 0xE2, CHR 0x80, CHR 0x80], [CHR 0xE2, CHR 0x80, CHR 0x81],
      [CHR 0xE2, CHR 0x80, CHR 0x82], [CHR 0xE2, CHR 0x80, CHR 0x83],
      [CHR 0xE2, CHR 0x80, CHR 0x84], [CHR 0xE2, CHR 0x80, CHR 0x85],
      [CHR 0xE2, CHR 0x80, CHR 0x86], [CHR 0xE2, CHR 0x80, CHR 0x87],
      [CHR 0xE2, CHR 0x80, CHR 0x88], [CHR 0xE2, CHR 0x80, CHR 0x89],
      [CHR 0xE2, CHR 0x80, CHR 0x8A],
      [CHR 0xE2, CHR 0x80, CHR 0xA8], [CHR 0xE2, CHR 0x80, CHR 0xA9],
      [CHR 0xE2, CHR 0x80, CHR 0xAF], [CHR 0xE2, CHR 0x81, CHR 0x9F],
      [CHR 0xE3, CHR 0x80, CHR 0x80]]"

text \<open>The number of bytes of the rune of \<open>rs\<close> that \<open>s\<close> starts with, 0 when it starts with none.\<close>

definition runeAtStart :: "string list \<Rightarrow> string \<Rightarrow> nat" where
  "runeAtStart rs s = (case find (\<lambda>r. r \<noteq> [] \<and> HasPrefix s r) rs of None \<Rightarrow> 0 | Some r \<Rightarrow> length r)"

lemma runeAtStart_le: "runeAtStart rs s \<le> length s"
proof (cases "find (\<lambda>r. r \<noteq> [] \<and> HasPrefix s r) rs")
  case None
  then show ?thesis by (simp add: runeAtStart_def)
next
  case (Some r)
  then have "take (length r) s = r"
    by (auto simp: find_Some_iff HasPrefix_def)
  then have "length (take (length r) s) = length r"
    by simp
  then have "length r \<le> length s"
    by simp
  with Some show ?thesis by (simp add: runeAtStart_def)
qed

function trimRunes :: "string list \<Rightarrow> string \<Rightarrow> string" where
  "trimRunes rs s = (if runeAtStart rs s = 0 then s else trimRunes rs (drop (runeAtStart rs s) s))"
  by pat_completeness auto
termination
proof (relation "measure (\<lambda>(rs, s). length s)")
  show "wf (measure (\<lambda>(rs, s). length s))" by simp
next
  fix rs :: "string list" and s :: string
  assume "runeAtStart rs s \<noteq> 0"
  moreover have "runeAtStart rs s \<le> length s" by (rule runeAtStart_le)
  ultimately show "((rs, drop (runeAtStart rs s) s), (rs, s)) \<in> measure (\<lambda>(rs, s). length s)"
    by simp
qed

definition TrimSpace :: "string \<Rightarrow> string" where
  "TrimSpace s = rev (trimRunes (map rev spaceRunes) (rev (trimRunes spaceRunes s)))"

text \<open>
  \<^verbatim>\<open>fmt.Sprintf("%d", i)\<close>: the decimal digits, after a minus sign for a negative number.
\<close>

definition digitChar :: "nat \<Rightarrow> char" where
  "digitChar d = char_of (48 + d)"

function decimal :: "nat \<Rightarrow> string" where
  "decimal n = (if n < 10 then [digitChar n] else decimal (n div 10) @ [digitChar (n mod 10)])"
  by pat_completeness auto
termination
  by (relation "measure (\<lambda>n. n)") auto

definition Sprintf_d :: "int \<Rightarrow> string" where
  "Sprintf_d i = (if i < 0 then CHR ''-'' # decimal (nat (- i)) else decimal (nat i))"

text \<open>The number a string of decimal digits writes.\<close>

definition digitsValue :: "string \<Rightarrow> int" where
  "digitsValue s = foldl (\<lambda>a c. 10 * a + ((of_char c :: int) - 48)) 0 s"


text \<open>
  \<^verbatim>\<open>parseInt\<close> reads its argument with \<^verbatim>\<open>fmt.Sscanf(s, "%d", &result)\<close>. Its callers
  pass a match of \<^verbatim>\<open>\d+\<close>: on such a string the scan gives the number written, and
  leaves \<^verbatim>\<open>result\<close> at 0 when the number does not fit in 64 bits. On any other string
  the model gives 0.
\<close>

definition parseInt :: "string \<Rightarrow> int" where
  "parseInt s =
     (if s \<noteq> [] \<and> list_all isDigit s \<and> digitsValue s < 2 ^ 63 then digitsValue s else 0)"

text \<open>
  \<^verbatim>\<open>sanitizeID\<close>: every maximal run of characters outside \<^verbatim>\<open>[a-zA-Z0-9]\<close> becomes one
  dash (\<^verbatim>\<open>ReplaceAllString\<close>), then the dashes at both ends are cut (\<^verbatim>\<open>strings.Trim\<close>).
\<close>

fun dashRuns :: "bool \<Rightarrow> string \<Rightarrow> string" where
  "dashRuns inRun [] = []"
| "dashRuns inRun (c # s) =
     (if isAlnum c then c # dashRuns False s
      else if inRun then dashRuns True s
      else CHR ''-'' # dashRuns True s)"

definition TrimDash :: "string \<Rightarrow> string" where
  "TrimDash s = rev (dropWhile (\<lambda>c. c = CHR ''-'') (rev (dropWhile (\<lambda>c. c = CHR ''-'') s)))"

definition sanitizeID :: "string \<Rightarrow> string" where
  "sanitizeID s = TrimDash (dashRuns False s)"

section \<open>The regular expressions of the diagnoser\<close>

text \<open>
  Go's regexp package returns the leftmost match and, among the matches that start there,
  the one a backtracking matcher finds first. Each pattern of the repository is written
  out as the function that computes this match.

  The tail \<^verbatim>\<open>\s*(.+)\<close> or \<^verbatim>\<open>\s+(.+)\<close> after a literal: the white space is taken as long
  as possible, the group then runs to the end of the line. When the text ends inside the
  white space, the white space gives back characters until the group can start on one that
  is no newline. \<open>m\<close> is the least number of white-space characters (0 for \<^verbatim>\<open>*\<close>, 1 for
  \<^verbatim>\<open>+\<close>).
\<close>

definition spaceThenRest :: "nat \<Rightarrow> string \<Rightarrow> string option" where
  "spaceThenRest m t =
     (let ws = takeWhile reSpace t; u = dropWhile reSpace t in
      if length ws < m then None
      else if u \<noteq> [] then Some (takeWhile (\<lambda>c. c \<noteq> nl) u)
      else (case find (\<lambda>k. ws ! k \<noteq> nl) (rev [m..<length ws]) of
              None \<Rightarrow> None
            | Some k \<Rightarrow> Some (takeWhile (\<lambda>c. c \<noteq> nl) (drop k ws))))"

text \<open>
  \<^verbatim>\<open>^([^:]+):(\d+):(\d+):\s*(.+)$\<close>, the four groups of its match. Without the flag
  \<^verbatim>\<open>m\<close> the anchors are the ends of the text, and the dot matches no newline.
\<close>

definition errorPattern :: "string \<Rightarrow> (string \<times> string \<times> string \<times> string) option" where
  "errorPattern s =
     (let g1 = takeWhile (\<lambda>c. c \<noteq> CHR '':'') s; r1 = dropWhile (\<lambda>c. c \<noteq> CHR '':'') s in
      if g1 = [] \<or> r1 = [] then None
      else
        let g2 = takeWhile isDigit (tl r1); r2 = dropWhile isDigit (tl r1) in
        if g2 = [] \<or> \<not> HasPrefix r2 '':'' then None
        else
          let g3 = takeWhile isDigit (tl r2); r3 = dropWhile isDigit (tl r2) in
          if g3 = [] \<or> \<not> HasPrefix r3 '':'' then None
          else
            let t = tl r3; u = dropWhile reSpace t in
            if t = [] then None
            else if u \<noteq> [] then (if nl \<in> set u then None else Some (g1, g2, g3, u))
            else if last t = nl then None
            else Some (g1, g2, g3, [last t]))"

text \<open>\<^verbatim>\<open>undefined:\s*(\w+)\<close>, the group of the leftmost match.\<close>

fun undefinedPattern :: "string \<Rightarrow> string option" where
  "undefinedPattern [] = None"
| "undefinedPattern (c # s) =
     (if HasPrefix (c # s) ''undefined:''
         \<and> takeWhile isWord (dropWhile reSpace (drop 10 (c # s))) \<noteq> []
      then Some (takeWhile isWord (dropWhile reSpace (drop 10 (c # s))))
      else undefinedPattern s)"

text \<open>\<^verbatim>\<open>could not import\s+(.+)\<close>, the group of the leftmost match.\<close>

fun importPattern :: "string \<Rightarrow> string option" where
  "importPattern [] = None"
| "importPattern (c # s) =
     (if HasPrefix (c # s) ''could not import''
      then (case spaceThenRest 1 (drop 16 (c # s)) of
              Some g \<Rightarrow> Some g
            | None \<Rightarrow> importPattern s)
      else importPattern s)"

text \<open>\<^verbatim>\<open>panic:\s*(.+)\<close>, the group of the leftmost match.\<close>

fun panicPattern :: "string \<Rightarrow> string option" where
  "panicPattern [] = None"
| "panicPattern (c # s) =
     (if HasPrefix (c # s) ''panic:''
      then (case spaceThenRest 0 (drop 6 (c # s)) of
              Some g \<Rightarrow> Some g
            | None \<Rightarrow> panicPattern s)
      else panicPattern s)"

section \<open>The diagnoser's issue model\<close>

datatype IssueLevel = LevelCritical | LevelError | LevelWarning | LevelInfo

datatype IssueCategory =
  CategoryConfig | CategoryDependency | CategoryBuild | CategoryRuntime
| CategoryTest | CategoryLint | CategorySecurity

record Issue =
  ID :: string
  Category :: IssueCategory
  Level :: IssueLevel
  Title :: string
  Description :: string
  File :: string
  Line :: int
  Column :: int
  Snippet :: string
  Suggestion :: string
  RawOutput :: string
  Fixed :: bool
  FixResult :: string

text \<open>
  A composite literal \<^verbatim>\<open>Issue{Category: c, Level: l, ...}\<close> leaves the fields it does not
  name at their zero values.
\<close>

definition newIssue :: "IssueCategory \<Rightarrow> IssueLevel \<Rightarrow> Issue" where
  "newIssue c l =
     \<lparr>ID = [], Category = c, Level = l, Title = [], Description = [], File = [], Line = 0,
      Column = 0, Snippet = [], Suggestion = [], RawOutput = [], Fixed = False,
      FixResult = []\<rparr>"

section \<open>The compiler-error extractor\<close>

text \<open>
  The issue \<^verbatim>\<open>parseBuildErrors\<close> builds from a line that matches \<^verbatim>\<open>errorPattern\<close>
  (lines 300 to 341 of diagnose.go): \<open>m\<close> holds the four groups.
\<close>

definition structuredIssue :: "string \<times> string \<times> string \<times> string \<Rightarrow> string \<Rightarrow> Issue" where
  "structuredIssue m line =
     (case m of (m1, m2, m3, errMsg) \<Rightarrow>
        let issue = (newIssue CategoryBuild LevelError)
              \<lparr>File := m1, Line := parseInt m2, Column := parseInt m3, RawOutput := line\<rparr>
        in
          if Contains errMsg ''undefined'' then
            (case undefinedPattern errMsg of
               Some u \<Rightarrow> issue
                 \<lparr>ID := ''build-undefined-'' @ u,
                  Title := ''Undefined identifier: '' @ u,
                  Description := errMsg,
                  Suggestion := ''Check if '' @ [CHR 0x27] @ u @ [CHR 0x27] @ '' is defined or imported correctly''\<rparr>
             | None \<Rightarrow> issue)
          else if Contains errMsg ''could not import'' then
            (case importPattern errMsg of
               Some i \<Rightarrow> issue
                 \<lparr>ID := ''build-import-'' @ sanitizeID i,
                  Title := ''Import failed: '' @ i,
                  Description := errMsg,
                  Suggestion := ''Check if the package exists and run '' @ [CHR 0x27] @ ''go mod tidy'' @ [CHR 0x27]\<rparr>
             | None \<Rightarrow> issue)
          else if Contains errMsg ''declared but not used'' then
            issue
              \<lparr>ID := ''build-unused-'' @ sanitizeID m1 @ ''-'' @ Sprintf_d (parseInt m2),
               Title := ''Unused variable/declaration'',
               Description := errMsg,
               Level := LevelWarning,
               Suggestion := ''Remove unused declaration or use the variable''\<rparr>
          else if Contains errMsg ''cannot use'' then
            issue
              \<lparr>ID := ''build-type-mismatch-'' @ sanitizeID m1 @ ''-'' @ Sprintf_d (parseInt m2),
               Title := ''Type mismatch'',
               Description := errMsg,
               Suggestion := ''Check type compatibility''\<rparr>
          else
            issue
              \<lparr>ID := ''build-error-'' @ sanitizeID m1 @ ''-'' @ Sprintf_d (parseInt m2),
               Title := ''Build error'',
               Description := errMsg\<rparr>)"

text \<open>The issue for a line that holds \<^verbatim>\<open>error\<close> or \<^verbatim>\<open>Error\<close> and has no such shape.\<close>

definition genericIssue :: "nat \<Rightarrow> string \<Rightarrow> Issue" where
  "genericIssue n line =
     (newIssue CategoryBuild LevelError)
       \<lparr>ID := ''build-generic-'' @ Sprintf_d (int n),
        Title := ''Build error'',
        Description := line,
        RawOutput := line\<rparr>"

text \<open>One turn of the loop over the lines, in the order of the source.\<close>

definition parseBuildLine :: "Issue list \<Rightarrow> string \<Rightarrow> Issue list" where
  "parseBuildLine issues raw =
     (let line = TrimSpace raw in
      if line = [] then issues
      else (case errorPattern line of
              Some m \<Rightarrow> issues @ [structuredIssue m line]
            | None \<Rightarrow>
                if Contains line ''error'' \<or> Contains line ''Error''
                then issues @ [genericIssue (length issues) line]
                else issues))"

definition parseBuildErrors :: "string \<Rightarrow> Issue list" where
  "parseBuildErrors output = foldl parseBuildLine [] (SplitLines output)"

section \<open>The runtime-crash extractor\<close>

definition panicIssue :: "string \<Rightarrow> string \<Rightarrow> Issue" where
  "panicIssue msg output =
     (newIssue CategoryRuntime LevelCritical)
       \<lparr>ID := ''runtime-panic'',
        Title := ''Runtime panic'',
        Description := msg,
        RawOutput := output,
        Suggestion := ''Review the panic stack trace and fix the root cause''\<rparr>"

definition nilPointerIssue :: "string \<Rightarrow> Issue" where
  "nilPointerIssue output =
     (newIssue CategoryRuntime LevelCritical)
       \<lparr>ID := ''runtime-nil-pointer'',
        Title := ''Nil pointer dereference'',
        Description := ''The program attempted to access a nil pointer'',
        RawOutput := output,
        Suggestion := ''Add nil checks before accessing pointers''\<rparr>"

definition indexIssue :: "string \<Rightarrow> Issue" where
  "indexIssue output =
     (newIssue CategoryRuntime LevelCritical)
       \<lparr>ID := ''runtime-index-out-of-range'',
        Title := ''Index out of range'',
        Description := ''Array/slice index out of bounds'',
        RawOutput := output,
        Suggestion := ''Add bounds checking before accessing array/slice elements''\<rparr>"

text \<open>
  The three patterns are tried once each on the whole output; \<^verbatim>\<open>MatchString\<close> of a
  pattern without operators is \<^verbatim>\<open>strings.Contains\<close>.
\<close>

definition parseRuntimeErrors :: "string \<Rightarrow> Issue list" where
  "parseRuntimeErrors output =
     (let issues0 = [];
          issues1 = (case panicPattern output of
                       Some msg \<Rightarrow> issues0 @ [panicIssue msg output]
                     | None \<Rightarrow> issues0);
          issues2 = (if Contains output ''nil pointer dereference''
                     then issues1 @ [nilPointerIssue output] else issues1);
          issues3 = (if Contains output ''index out of range''
                     then issues2 @ [indexIssue output] else issues2)
      in issues3)"


section \<open>The orchestrator: requests, results and collaborators\<close>

text \<open>
  A Go \<^verbatim>\<open>error\<close> is modelled by its text (what \<^verbatim>\<open>Error()\<close> returns); \<^verbatim>\<open>nil\<close> is
  \<^const>\<open>None\<close>. \<^verbatim>\<open>fmt.Errorf("read files: %w", err)\<close> is the text of \<open>err\<close> after the
  prefix. \<^verbatim>\<open>Mode\<close> is a string type. \<^verbatim>\<open>Result.Duration\<close> (wall-clock time) and the
  logger of \<^verbatim>\<open>Config\<close> (whose calls return nothing) are left out.
\<close>

record Request =
  Mode :: string
  Files :: "string list"
  Instruction :: string
  WorkDir :: string

record Result =
  Success :: bool
  FilesWritten :: "string list"
  Output :: string
  Explanation :: string
  Attempts :: int
  Error :: "string option"

record CodeBlock =
  Language :: string
  Code :: string
  Filename :: string

record Config =
  MaxRetries :: int
  BuildVerify :: bool

text \<open>
  The engine reaches the file system, the prompt builder, the generation service and the
  command runner through four interfaces. Their implementations have state of their own,
  so each method takes the state \<open>'w\<close> of the world outside the engine and returns the
  new one. The methods of \<^verbatim>\<open>PromptService\<close> return the builder they were called on.
  \<open>RangeOrder\<close> is the order in which the runtime visits the entries of a map in a
  \<^verbatim>\<open>range\<close> loop, which Go leaves open.
\<close>

record 'w Services =
  ReadFile :: "string \<Rightarrow> 'w \<Rightarrow> (string + string) \<times> 'w"
  WriteFile :: "string \<Rightarrow> string \<Rightarrow> 'w \<Rightarrow> string option \<times> 'w"
  SetMode :: "string \<Rightarrow> 'w \<Rightarrow> 'w"
  SetInstruction :: "string \<Rightarrow> 'w \<Rightarrow> 'w"
  AddFile :: "string \<Rightarrow> string \<Rightarrow> bool \<Rightarrow> 'w \<Rightarrow> 'w"
  Build :: "'w \<Rightarrow> (string + string) \<times> 'w"
  Chat :: "string \<Rightarrow> 'w \<Rightarrow> (string + string) \<times> 'w"
  ExecuteInDir :: "string \<Rightarrow> string \<Rightarrow> 'w \<Rightarrow> (int \<times> string \<times> string \<times> string option) \<times> 'w"
  RangeOrder :: "'w \<Rightarrow> (string \<times> string) list \<Rightarrow> (string \<times> string) list"

text \<open>
  What one turn of the retry loop came to: the step at which it ended, with the prompt
  that went to \<^verbatim>\<open>Chat\<close> (from the call on) and the error of the step. The engine
  itself reports these through its logger; the model keeps them as the trace of a run.
\<close>

datatype outcome =
  ReadFailed string
| PromptFailed string
| CallFailed string string
| NoCodeBlocks string
| WriteFailed string string
| BuildFailed string string
| Succeeded string

record 'w Run =
  Res :: Result
  Req :: Request
  World :: 'w
  Trace :: "outcome list"

section \<open>The orchestrator: the steps of one attempt\<close>

text \<open>A \<^verbatim>\<open>map[string]string\<close> as the list of its entries; assignment replaces or adds.\<close>

fun mapPut :: "string \<Rightarrow> string \<Rightarrow> (string \<times> string) list \<Rightarrow> (string \<times> string) list" where
  "mapPut k v [] = [(k, v)]"
| "mapPut k v ((k', v') # m) = (if k = k' then (k, v) # m else (k', v') # mapPut k v m)"

fun readFilesFrom ::
  "'w Services \<Rightarrow> string list \<Rightarrow> (string \<times> string) list \<Rightarrow> 'w
    \<Rightarrow> (string + (string \<times> string) list) \<times> 'w" where
  "readFilesFrom S [] contents w = (Inr contents, w)"
| "readFilesFrom S (path # files) contents w =
     (case ReadFile S path w of
        (Inl err, w') \<Rightarrow> (Inl (path @ '': '' @ err), w')
      | (Inr content, w') \<Rightarrow> readFilesFrom S files (mapPut path content contents) w')"

definition readFiles ::
  "'w Services \<Rightarrow> string list \<Rightarrow> 'w \<Rightarrow> (string + (string \<times> string) list) \<times> 'w" where
  "readFiles S files w = readFilesFrom S files [] w"

definition buildPrompt ::
  "'w Services \<Rightarrow> Request \<Rightarrow> (string \<times> string) list \<Rightarrow> 'w \<Rightarrow> (string + string) \<times> 'w" where
  "buildPrompt S req files w =
     (let builder = SetInstruction S (Instruction req) (SetMode S (Mode req) w);
          builder' = foldl (\<lambda>b (path, content). AddFile S path content True b) builder
                       (RangeOrder S builder files)
      in Build S builder')"

text \<open>
  The text before the first \<^verbatim>\<open>```\<close> of a string and the text after it.
\<close>

definition fence :: string where
  "fence = [CHR 0x60, CHR 0x60, CHR 0x60]"

fun splitAtFence :: "string \<Rightarrow> (string \<times> string) option" where
  "splitAtFence [] = None"
| "splitAtFence (c # s) =
     (if HasPrefix (c # s) fence then Some ([], drop 3 (c # s))
      else (case splitAtFence s of None \<Rightarrow> None | Some (a, b) \<Rightarrow> Some (c # a, b)))"

lemma splitAtFence_length:
  "splitAtFence s = Some (a, b) \<Longrightarrow> length b < length s"
proof (induction s arbitrary: a b)
  case Nil
  then show ?case by simp
next
  case (Cons c s)
  show ?case
  proof (cases "HasPrefix (c # s) fence")
    case True
    with Cons.prems show ?thesis by auto
  next
    case False
    with Cons.prems obtain a' where "splitAtFence s = Some (a', b)"
      by (auto split: option.splits)
    then have "length b < length s" by (rule Cons.IH)
    then show ?thesis by simp
  qed
qed

text \<open>
  The matches of \<^verbatim>\<open>```(\w*)\n?([\s\S]*?)```\<close> in a response, from left to right and without
  overlap: the two groups of each. After the opening fence the word characters are taken
  as long as possible, then a newline if there is one, and the second group ends at the
  next fence.
\<close>

definition afterLanguage :: "string \<Rightarrow> string" where
  "afterLanguage r = (let r1 = dropWhile isWord r in if HasPrefix r1 [nl] then tl r1 else r1)"

lemma afterLanguage_length: "length (afterLanguage r) \<le> length r"
proof -
  have "length (dropWhile isWord r) \<le> length r"
    by (rule length_dropWhile_le)
  then show ?thesis
    by (auto simp: afterLanguage_def Let_def)
qed

function codeBlockMatches :: "string \<Rightarrow> (string \<times> string) list" where
  "codeBlockMatches s =
     (case splitAtFence s of
        None \<Rightarrow> []
      | Some (before, r) \<Rightarrow>
          (case splitAtFence (afterLanguage r) of
             None \<Rightarrow> []
           | Some (body, rest) \<Rightarrow> (takeWhile isWord r, body) # codeBlockMatches rest))"
  by pat_completeness auto
termination
proof (relation "measure length")
  show "wf (measure length)" by simp
next
  fix s :: string and x2 before r x2a body rest
  assume a: "splitAtFence s = Some x2" "(before, r) = x2"
    and b: "splitAtFence (afterLanguage r) = Some x2a" "(body, rest) = x2a"
  from a have "length r < length s"
    using splitAtFence_length [of s before r] by simp
  moreover from b have "length rest < length (afterLanguage r)"
    using splitAtFence_length [of "afterLanguage r" body rest] by simp
  moreover have "length (afterLanguage r) \<le> length r"
    by (rule afterLanguage_length)
  ultimately show "(rest, s) \<in> measure length" by simp
qed

text \<open>\<^verbatim>\<open>parseCodeBlocks\<close> keeps the matches whose trimmed code is not empty; it sets no file name.\<close>

definition parseCodeBlocks :: "string \<Rightarrow> CodeBlock list" where
  "parseCodeBlocks response =
     map (\<lambda>(lang, body). \<lparr>Language = lang, Code = TrimSpace body, Filename = []\<rparr>)
       (filter (\<lambda>(lang, body). TrimSpace body \<noteq> []) (codeBlockMatches response))"

text \<open>
  \<^verbatim>\<open>writeFiles\<close>: the loop over the blocks with their index \<open>i\<close>, the paths written so
  far, and the error that ends it.
\<close>

fun writeFilesFrom ::
  "'w Services \<Rightarrow> string list \<Rightarrow> nat \<Rightarrow> CodeBlock list \<Rightarrow> string list \<Rightarrow> 'w
    \<Rightarrow> (string list \<times> string option) \<times> 'w" where
  "writeFilesFrom S files i [] written w = ((written, None), w)"
| "writeFilesFrom S files i (block # blocks) written w =
     (if i < length files then
        (case WriteFile S (files ! i) (Code block) w of
           (Some err, w') \<Rightarrow> ((written, Some (files ! i @ '': '' @ err)), w')
         | (None, w') \<Rightarrow> writeFilesFrom S files (i + 1) blocks (written @ [files ! i]) w')
      else if Filename block \<noteq> [] then
        (case WriteFile S (Filename block) (Code block) w of
           (Some err, w') \<Rightarrow> ((written, Some (Filename block @ '': '' @ err)), w')
         | (None, w') \<Rightarrow> writeFilesFrom S files (i + 1) blocks (written @ [Filename block]) w')
      else writeFilesFrom S files (i + 1) blocks written w)"

definition writeFiles ::
  "'w Services \<Rightarrow> string list \<Rightarrow> CodeBlock list \<Rightarrow> 'w \<Rightarrow> (string list \<times> string option) \<times> 'w" where
  "writeFiles S files blocks w = writeFilesFrom S files 0 blocks [] w"

definition verifyBuild :: "'w Services \<Rightarrow> string \<Rightarrow> 'w \<Rightarrow> string option \<times> 'w" where
  "verifyBuild S workDir w =
     (case ExecuteInDir S ''go build ./...'' workDir w of
        ((exitCode, out, stderr, err), w') \<Rightarrow>
          (case err of
             Some e \<Rightarrow> (Some e, w')
           | None \<Rightarrow> if exitCode \<noteq> 0 then (Some stderr, w') else (None, w')))"

definition appendBuildError :: "string \<Rightarrow> string \<Rightarrow> string" where
  "appendBuildError instruction buildErr =
     instruction @ [nl, nl] @ ''Previous attempt failed:'' @ [nl] @ buildErr @ [nl]
       @ ''Please fix the code.''"

text \<open>
  \<^verbatim>\<open>extractExplanation\<close>: every match of \<^verbatim>\<open>```[\s\S]*?```\<close> is cut out, the rest is trimmed.
\<close>

function withoutBlocks :: "string \<Rightarrow> string" where
  "withoutBlocks s =
     (case splitAtFence s of
        None \<Rightarrow> s
      | Some (before, r) \<Rightarrow>
          (case splitAtFence r of
             None \<Rightarrow> s
           | Some (body, rest) \<Rightarrow> before @ withoutBlocks rest))"
  by pat_completeness auto
termination
proof (relation "measure length")
  show "wf (measure length)" by simp
next
  fix s :: string and x2 before r x2a body rest
  assume a: "splitAtFence s = Some x2" "(before, r) = x2"
    and b: "splitAtFence r = Some x2a" "(body, rest) = x2a"
  from a have "length r < length s"
    using splitAtFence_length [of s before r] by simp
  moreover from b have "length rest < length r"
    using splitAtFence_length [of r body rest] by simp
  ultimately show "(rest, s) \<in> measure length" by simp
qed

definition extractExplanation :: "string \<Rightarrow> string" where
  "extractExplanation response = TrimSpace (withoutBlocks response)"

text \<open>
  \<^verbatim>\<open>strings.ToLower\<close> on ASCII text: the letters A to Z become a to z. Bytes from 0x80 on
  stay as they are; Go maps the runes they encode by the Unicode tables, which are no part
  of the repository.
\<close>

definition ToLower :: "string \<Rightarrow> string" where
  "ToLower s = map (\<lambda>c. if isUpper c then char_of ((of_char c :: nat) + 32) else c) s"

definition isRetryable :: "string option \<Rightarrow> bool" where
  "isRetryable err =
     (case err of
        None \<Rightarrow> False
      | Some e \<Rightarrow>
          (let msg = ToLower e in
           Contains msg ''timeout'' \<or> Contains msg ''connection'' \<or> Contains msg ''rate limit''
           \<or> Contains msg ''503'' \<or> Contains msg ''502''))"

section \<open>The orchestrator: the retry loop\<close>

text \<open>
  The body of the loop of \<^verbatim>\<open>Execute\<close> for the attempt numbered \<open>attempt\<close>. The flag
  says whether the body left the loop (\<^verbatim>\<open>break\<close>) or went on to the next turn
  (\<^verbatim>\<open>continue\<close>).
\<close>

definition Execute_body :: "'w Services \<Rightarrow> Config \<Rightarrow> int \<Rightarrow> 'w Run \<Rightarrow> bool \<times> 'w Run" where
  "Execute_body S cfg attempt r =
     (let result = (Res r)\<lparr>Attempts := attempt\<rparr>; req = Req r in
      case readFiles S (Files req) (World r) of
        (Inl err, w1) \<Rightarrow>
          (False, r\<lparr>Res := result\<lparr>Error := Some (''read files: '' @ err)\<rparr>, World := w1,
                     Trace := Trace r @ [ReadFailed err]\<rparr>)
      | (Inr fileContents, w1) \<Rightarrow>
      (case buildPrompt S req fileContents w1 of
        (Inl err, w2) \<Rightarrow>
          (False, r\<lparr>Res := result\<lparr>Error := Some (''build prompt: '' @ err)\<rparr>, World := w2,
                     Trace := Trace r @ [PromptFailed err]\<rparr>)
      | (Inr prompt, w2) \<Rightarrow>
      (case Chat S prompt w2 of
        (Inl err, w3) \<Rightarrow>
          (\<not> isRetryable (Some err),
           r\<lparr>Res := result\<lparr>Error := Some (''LLM call: '' @ err)\<rparr>, World := w3,
              Trace := Trace r @ [CallFailed prompt err]\<rparr>)
      | (Inr response, w3) \<Rightarrow>
      (let codeBlocks = parseCodeBlocks response in
       if length codeBlocks = 0 then
          (False, r\<lparr>Res := result\<lparr>Error := Some ''no code blocks found in response''\<rparr>,
                     World := w3, Trace := Trace r @ [NoCodeBlocks prompt]\<rparr>)
       else
      (case writeFiles S (Files req) codeBlocks w3 of
        ((written, Some err), w4) \<Rightarrow>
          (False, r\<lparr>Res := result\<lparr>Error := Some (''write files: '' @ err)\<rparr>, World := w4,
                     Trace := Trace r @ [WriteFailed prompt err]\<rparr>)
      | ((written, None), w4) \<Rightarrow>
      (let result' = result\<lparr>FilesWritten := written\<rparr>;
           done = (\<lambda>w. (True, r\<lparr>Res := result'\<lparr>Success := True, Output := response,
                                     Explanation := extractExplanation response, Error := None\<rparr>,
                                   World := w, Trace := Trace r @ [Succeeded prompt]\<rparr>))
       in
       if BuildVerify cfg \<and> WorkDir req \<noteq> [] then
         (case verifyBuild S (WorkDir req) w4 of
            (Some err, w5) \<Rightarrow>
              (False, r\<lparr>Res := result'\<lparr>Error := Some (''build failed: '' @ err)\<rparr>,
                         Req := req\<lparr>Instruction := appendBuildError (Instruction req) err\<rparr>,
                         World := w5, Trace := Trace r @ [BuildFailed prompt err]\<rparr>)
          | (None, w5) \<Rightarrow> done w5)
       else done w4))))))"

text \<open>
  \<^verbatim>\<open>for attempt := 1; attempt <= e.config.MaxRetries; attempt++\<close>. The counter is a 64-bit
  integer in Go; it stays below \<open>2\<^sup>6\<^sup>3\<close> as long as \<^verbatim>\<open>MaxRetries\<close> is below
  \<open>2\<^sup>6\<^sup>3 - 1\<close>, the configurations the model covers.
\<close>

function Execute_loop :: "'w Services \<Rightarrow> Config \<Rightarrow> int \<Rightarrow> 'w Run \<Rightarrow> 'w Run" where
  "Execute_loop S cfg attempt r =
     (if attempt \<le> MaxRetries cfg then
        (case Execute_body S cfg attempt r of
           (True, r') \<Rightarrow> r'
         | (False, r') \<Rightarrow> Execute_loop S cfg (attempt + 1) r')
      else r)"
  by pat_completeness auto
termination
  by (relation "measure (\<lambda>(S, cfg, attempt, r). nat (MaxRetries cfg + 1 - attempt))") auto

text \<open>
  \<^verbatim>\<open>Execute\<close> starts from \<^verbatim>\<open>&Result{Attempts: 0}\<close>. It returns the result; the request
  it was given a pointer to is the caller's, so the run also holds the request as
  \<^verbatim>\<open>Execute\<close> leaves it.
\<close>

definition Execute :: "'w Services \<Rightarrow> Config \<Rightarrow> Request \<Rightarrow> 'w \<Rightarrow> 'w Run" where
  "Execute S cfg req w =
     Execute_loop S cfg 1
       \<lparr>Res = \<lparr>Success = False, FilesWritten = [], Output = [], Explanation = [],
               Attempts = 0, Error = None\<rparr>,
        Req = req, World = w, Trace = []\<rparr>"

section \<open>Properties of the extractors\<close>

lemma errorPattern_nonempty: "errorPattern line = Some m \<Longrightarrow> line \<noteq> []"
  by (auto simp: errorPattern_def)

text \<open>
  Claim C7. The compiler output that is the single line
  \<^verbatim>\<open>handler.go:12:5: undefined: parseUser\<close> gives exactly one issue: category build, level
  error, file \<^verbatim>\<open>handler.go\<close>, line 12, column 5, and a title that contains
  \<^verbatim>\<open>parseUser\<close>.
\<close>

theorem C7_handler_line:
  "parseBuildErrors ''handler.go:12:5: undefined: parseUser'' =
     [\<lparr>ID = ''build-undefined-parseUser'', Category = CategoryBuild, Level = LevelError,
       Title = ''Undefined identifier: parseUser'', Description = ''undefined: parseUser'',
       File = ''handler.go'', Line = 12, Column = 5, Snippet = [],
       Suggestion = ''Check if '' @ [CHR 0x27] @ ''parseUser'' @ [CHR 0x27] @ '' is defined or imported correctly'',
       RawOutput = ''handler.go:12:5: undefined: parseUser'', Fixed = False, FixResult = []\<rparr>]
   \<and> Contains ''Undefined identifier: parseUser'' ''parseUser''"
  by code_simp

text \<open>
  Claim C8. Whatever the runtime output, the runtime-crash extractor gives at most one
  issue for the panic signature, at most one for the nil dereference and at most one for
  the index out of range, so at most three issues; each of them is critical.
\<close>

theorem C8_one_issue_per_signature:
  "length (parseRuntimeErrors output) \<le> 3
   \<and> length (filter (\<lambda>i. ID i = ''runtime-panic'') (parseRuntimeErrors output)) \<le> 1
   \<and> length (filter (\<lambda>i. ID i = ''runtime-nil-pointer'') (parseRuntimeErrors output)) \<le> 1
   \<and> length (filter (\<lambda>i. ID i = ''runtime-index-out-of-range'') (parseRuntimeErrors output)) \<le> 1
   \<and> list_all (\<lambda>i. Level i = LevelCritical \<and> Category i = CategoryRuntime
         \<and> (ID i = ''runtime-panic'' \<or> ID i = ''runtime-nil-pointer''
              \<or> ID i = ''runtime-index-out-of-range'')) (parseRuntimeErrors output)"
  by (simp add: parseRuntimeErrors_def panicIssue_def nilPointerIssue_def indexIssue_def
      newIssue_def Let_def split: option.split)

text \<open>
  Claim C10. A line of the shape \<^verbatim>\<open>path:line:column: message\<close> whose message contains
  \<^verbatim>\<open>undefined\<close> and has no match of \<^verbatim>\<open>undefined:\s*(\w+)\<close> gives an issue whose ID,
  title and description are the empty string: only the category, the level, the location
  and the raw output are set.
\<close>

theorem C10_undefined_without_symbol:
  assumes "errorPattern (TrimSpace raw) = Some (m1, m2, m3, msg)"
    and "Contains msg ''undefined''"
    and "undefinedPattern msg = None"
  shows "parseBuildLine issues raw =
           issues @ [(newIssue CategoryBuild LevelError)
             \<lparr>File := m1, Line := parseInt m2, Column := parseInt m3, RawOutput := TrimSpace raw\<rparr>]
         \<and> ID (last (parseBuildLine issues raw)) = []
         \<and> Title (last (parseBuildLine issues raw)) = []
         \<and> Description (last (parseBuildLine issues raw)) = []"
proof -
  have ne: "TrimSpace raw \<noteq> []"
    using assms(1) by (rule errorPattern_nonempty)
  have step: "parseBuildLine issues raw =
      issues @ [(newIssue CategoryBuild LevelError)
        \<lparr>File := m1, Line := parseInt m2, Column := parseInt m3, RawOutput := TrimSpace raw\<rparr>]"
    using assms ne by (simp add: parseBuildLine_def structuredIssue_def Let_def)
  then show ?thesis
    by (simp add: newIssue_def)
qed

theorem C10_witness:
  "errorPattern (TrimSpace ''x.go:3:4: undefined method'') = Some (''x.go'', ''3'', ''4'', ''undefined method'')
   \<and> Contains ''undefined method'' ''undefined''
   \<and> undefinedPattern ''undefined method'' = None
   \<and> ID (last (parseBuildLine [] ''x.go:3:4: undefined method'')) = []
   \<and> Title (last (parseBuildLine [] ''x.go:3:4: undefined method'')) = []
   \<and> Description (last (parseBuildLine [] ''x.go:3:4: undefined method'')) = []
   \<and> parseBuildErrors ''x.go:3:4: undefined method'' =
       [(newIssue CategoryBuild LevelError)
          \<lparr>File := ''x.go'', Line := 3, Column := 4, RawOutput := ''x.go:3:4: undefined method''\<rparr>]"
proof -
  have a: "errorPattern (TrimSpace ''x.go:3:4: undefined method'') = Some (''x.go'', ''3'', ''4'', ''undefined method'')"
    by code_simp
  have b: "Contains ''undefined method'' ''undefined''"
    by code_simp
  have c: "undefinedPattern ''undefined method'' = None"
    by code_simp
  have d: "parseBuildErrors ''x.go:3:4: undefined method'' =
       [(newIssue CategoryBuild LevelError)
          \<lparr>File := ''x.go'', Line := 3, Column := 4, RawOutput := ''x.go:3:4: undefined method''\<rparr>]"
    by code_simp
  show ?thesis
    using C10_undefined_without_symbol [OF a b c, of "[]"] a b c d by blast
qed

end
